theory Spec2Isabelle
  imports Complex_Main "HOL-Library.Sublist"
begin

section \<open>The Governor: CPPI risk engine (src/agents/governor.py)\<close>

text \<open>
  Python floats are read as real numbers: the arithmetic of the engine (one subtraction,
  one product, one quotient, \<open>min\<close> and \<open>max\<close>) is modelled exactly, without rounding,
  infinities or NaN. Instants returned by \<open>datetime.now()\<close> are natural numbers
  (microseconds since some origin).
\<close>

subsection \<open>Data model\<close>

datatype RiskZone = GREEN | YELLOW | RED

text \<open>The \<open>.value\<close> of a member of the enum: the text stored in the database.\<close>

fun zone_value :: "RiskZone \<Rightarrow> string" where
  "zone_value GREEN = ''GREEN''"
| "zone_value YELLOW = ''YELLOW''"
| "zone_value RED = ''RED''"

type_synonym datetime = nat

datatype py_error =
  KeyError | ValueError | TypeError | IntegrityError | OperationalError | OtherError

record PortfolioState =
  total_value :: real
  peak_value :: real
  drawdown_pct :: real
  risk_zone :: RiskZone
  equity_allocation :: real
  liquid_allocation :: real
  recommended_action :: string
  timestamp :: datetime

record Holding =
  symbol :: string
  quantity :: int
  avg_price :: real
  current_price :: real
  holding_value :: real
  day_change :: real
  day_change_pct :: real
  unrealized_pnl :: real
  unrealized_pnl_pct :: real

subsection \<open>The tables of the SQLite file\<close>

record peak_row =
  pk_id :: nat
  pk_peak_value :: real
  pk_peak_date :: datetime
  pk_updated_at :: datetime

record state_row =
  st_timestamp :: datetime
  st_total_value :: real
  st_peak_value :: real
  st_drawdown_pct :: real
  st_risk_zone :: string
  st_equity_allocation :: real
  st_liquid_allocation :: real
  st_action_taken :: string

record event_row =
  ev_timestamp :: datetime
  ev_event_type :: string
  ev_portfolio_value :: real
  ev_drawdown_pct :: real
  ev_action_taken :: string
  ev_details :: string

text \<open>
  Each table is the list of its rows in the order they were inserted.
  \<open>holdings_history\<close> is created by the schema and never read or written.
\<close>

record database =
  peak_tracker :: "peak_row list"
  portfolio_state :: "state_row list"
  risk_events :: "event_row list"

subsection \<open>The world outside the process\<close>

text \<open>
  One audit reads the clock at several places and runs several SQLite statements, each
  of which may raise (a locked or unwritable file). The environment of a call says what
  \<open>datetime.now()\<close> returns at each place, and what each statement raises, if anything.
\<close>

datatype clock_site =
  InitPeakDate | InitUpdatedAt | PeakDate | PeakUpdatedAt | StateTime | EventTime
  | LastAudit | ErrorTime

datatype call_site =
  GetPeak | UpdateRead | UpdateWrite | SaveState | PrevZone | LogEvent

text \<open>What a Python procedure returns: \<open>None\<close> or a float.\<close>

datatype py_value = PyNone | PyFloat real

text \<open>
  A holding as the broker returns it (a dictionary). Each field is the outcome of the
  expression the code applies to it: \<open>holding['tradingsymbol']\<close>,
  \<open>int(holding['quantity'])\<close>, \<open>float(holding['average_price'])\<close>,
  \<open>float(holding.get('last_price', 0))\<close>, and \<open>float(holding['close_price'])\<close> when
  that key is present (\<open>None\<close> when it is absent).
\<close>

record raw_holding =
  rh_tradingsymbol :: "py_error + string"
  rh_quantity :: "py_error + int"
  rh_average_price :: "py_error + real"
  rh_last_price :: "py_error + real"
  rh_close_price :: "(py_error + real) option"

text \<open>
  A net position of the day, likewise: \<open>position['tradingsymbol']\<close>,
  \<open>int(position['quantity'])\<close>, \<open>float(position['average_price'])\<close>,
  \<open>float(position.get('last_price', 0))\<close>, \<open>float(position.get('day_change', 0))\<close>,
  \<open>float(position.get('day_change_percentage', 0))\<close>, \<open>float(position.get('pnl', 0))\<close>.
\<close>

record raw_position =
  rp_tradingsymbol :: "py_error + string"
  rp_quantity :: "py_error + int"
  rp_average_price :: "py_error + real"
  rp_last_price :: "py_error + real"
  rp_day_change :: "py_error + real"
  rp_day_change_percentage :: "py_error + real"
  rp_pnl :: "py_error + real"

text \<open>
  A Kite session, as it answers at the time of a call: what \<open>holdings()\<close> and
  \<open>positions().get('net', [])\<close> give, or raise.
\<close>

record kite_session =
  holdings_call :: "py_error + raw_holding list"
  positions_call :: "py_error + raw_position list"

text \<open>
  \<open>connect\<close> is the creation of a temporary session from an API key and an access token;
  \<open>yf_price\<close> is the last close yfinance has for a symbol, \<open>None\<close> when it has no data
  or the request fails.
\<close>

record env =
  now :: "clock_site \<Rightarrow> datetime"
  sqlite_raises :: "call_site \<Rightarrow> py_error option"
  connect :: "string \<Rightarrow> string \<Rightarrow> py_error + kite_session"
  yf_price :: "string \<Rightarrow> real option"

subsection \<open>CPPIEngine\<close>

text \<open>
  The engine's attributes; \<open>db\<close> is the content of the file at \<open>db_path\<close>.
  \<open>multipliers\<close> is a dictionary, so a lookup of a missing key raises \<open>KeyError\<close>.
\<close>

record CPPIEngine =
  floor_ratio :: real
  multipliers :: "RiskZone \<rightharpoonup> real"
  db :: database

definition default_multipliers :: "RiskZone \<rightharpoonup> real" where
  "default_multipliers = [GREEN \<mapsto> 5.0, YELLOW \<mapsto> 3.0, RED \<mapsto> 1.0]"

text \<open>\<open>_calculate_drawdown\<close>\<close>

definition calculate_drawdown :: "real \<Rightarrow> real \<Rightarrow> real" where
  "calculate_drawdown current_value peak =
     (if peak = 0 then 0.0 else (peak - current_value) / peak)"

text \<open>\<open>_determine_risk_zone\<close>\<close>

definition determine_risk_zone :: "real \<Rightarrow> RiskZone" where
  "determine_risk_zone drawdown =
     (if drawdown \<le> 0.05 then GREEN
      else if drawdown \<le> 0.08 then YELLOW
      else RED)"

text \<open>
  \<open>_calculate_cppi_allocation\<close>; \<open>cppi_floor\<close> and \<open>cppi_cushion\<close> are its local
  variables \<open>floor\<close> and \<open>cushion\<close>.
\<close>

definition cppi_floor :: "CPPIEngine \<Rightarrow> real \<Rightarrow> real" where
  "cppi_floor e peak = floor_ratio e * peak"

definition cppi_cushion :: "CPPIEngine \<Rightarrow> real \<Rightarrow> real \<Rightarrow> real" where
  "cppi_cushion e current_value peak = max 0 (current_value - cppi_floor e peak)"

definition calculate_cppi_allocation ::
  "CPPIEngine \<Rightarrow> real \<Rightarrow> real \<Rightarrow> RiskZone \<Rightarrow> py_error + (real \<times> real)" where
  "calculate_cppi_allocation e current_value peak zone =
     (let cushion = cppi_cushion e current_value peak in
      case multipliers e zone of
        None \<Rightarrow> Inl KeyError
      | Some multiplier \<Rightarrow>
          (let equity = (if current_value > 0
                         then min 1.0 ((cushion * multiplier) / current_value)
                         else 0.0);
               liquid = 1.0 - equity
           in Inr (equity, liquid)))"

text \<open>\<open>_get_recommended_action\<close>\<close>

definition get_recommended_action :: "RiskZone \<Rightarrow> real \<Rightarrow> string" where
  "get_recommended_action zone equity =
     (if zone = RED then
        (if equity < 0.3 then ''EMERGENCY: Liquidate to Liquid BeES immediately''
         else ''RED ZONE: Reduce equity exposure to match CPPI allocation'')
      else if zone = YELLOW then ''CAUTION: Trim high-beta positions, move to arbitrage funds''
      else ''ALL CLEAR: Full equity allocation permitted'')"

subsection \<open>The engine's storage\<close>

text \<open>
  \<open>SELECT MAX(id) FROM peak_tracker\<close>, and the row
  \<open>SELECT ... ORDER BY id DESC LIMIT 1\<close> returns (\<open>id\<close> is the primary key).
\<close>

fun max_id :: "peak_row list \<Rightarrow> nat option" where
  "max_id [] = None"
| "max_id (r # rs) =
     (case max_id rs of None \<Rightarrow> Some (pk_id r) | Some m \<Rightarrow> Some (max (pk_id r) m))"

definition latest_peak_row :: "peak_row list \<Rightarrow> peak_row option" where
  "latest_peak_row rows =
     (case max_id rows of None \<Rightarrow> None | Some m \<Rightarrow> find (\<lambda>r. pk_id r = m) rows)"

text \<open>
  \<open>_initialize_database\<close>: the tables exist from here on, and an empty
  \<open>peak_tracker\<close> gets its first row.
\<close>

definition initialize_database :: "env \<Rightarrow> database \<Rightarrow> database" where
  "initialize_database w d =
     (if length (peak_tracker d) = 0
      then d\<lparr>peak_tracker :=
               [\<lparr>pk_id = 1, pk_peak_value = 100000.0,
                 pk_peak_date = now w InitPeakDate, pk_updated_at = now w InitUpdatedAt\<rparr>]\<rparr>
      else d)"

text \<open>\<open>CPPIEngine.__init__\<close>, on the file content \<open>d\<close>.\<close>

definition CPPIEngine_init :: "env \<Rightarrow> database \<Rightarrow> CPPIEngine" where
  "CPPIEngine_init w d =
     \<lparr>floor_ratio = 0.9, multipliers = default_multipliers, db = initialize_database w d\<rparr>"

text \<open>A file that does not exist yet: no table has a row.\<close>

definition empty_database :: database where
  "empty_database = \<lparr>peak_tracker = [], portfolio_state = [], risk_events = []\<rparr>"

text \<open>
  \<open>_get_peak_value\<close>: \<open>stored_peak\<close> is what its query and its default give; the call
  itself may raise. The call site tells the two callers apart.
\<close>

definition stored_peak :: "database \<Rightarrow> real" where
  "stored_peak d =
     (case latest_peak_row (peak_tracker d) of
        None \<Rightarrow> 100000.0
      | Some r \<Rightarrow> pk_peak_value r)"

definition get_peak_value :: "env \<Rightarrow> call_site \<Rightarrow> CPPIEngine \<Rightarrow> py_error + real" where
  "get_peak_value w site e =
     (case sqlite_raises w site of
        Some err \<Rightarrow> Inl err
      | None \<Rightarrow> Inr (stored_peak (db e)))"

text \<open>The \<open>UPDATE\<close> statement of \<open>_update_peak_value\<close>.\<close>

definition update_peak_rows :: "env \<Rightarrow> real \<Rightarrow> peak_row list \<Rightarrow> peak_row list" where
  "update_peak_rows w new_value rows =
     map (\<lambda>r. if Some (pk_id r) = max_id rows
              then r\<lparr>pk_peak_value := new_value, pk_peak_date := now w PeakDate,
                     pk_updated_at := now w PeakUpdatedAt\<rparr>
              else r) rows"

text \<open>
  \<open>_update_peak_value\<close>. It returns \<open>None\<close>. A statement that raises leaves the file
  as it was (its transaction is rolled back).
\<close>

definition update_peak_value ::
  "env \<Rightarrow> CPPIEngine \<Rightarrow> real \<Rightarrow> (py_error + py_value) \<times> CPPIEngine" where
  "update_peak_value w e new_value =
     (case get_peak_value w UpdateRead e of
        Inl err \<Rightarrow> (Inl err, e)
      | Inr current_peak \<Rightarrow>
          if new_value > current_peak then
            (case sqlite_raises w UpdateWrite of
               Some err \<Rightarrow> (Inl err, e)
             | None \<Rightarrow>
                 (Inr PyNone,
                  e\<lparr>db := (db e)\<lparr>peak_tracker :=
                       update_peak_rows w new_value (peak_tracker (db e))\<rparr>\<rparr>))
          else (Inr PyNone, e))"

text \<open>
  \<open>_save_portfolio_state\<close>: \<open>timestamp\<close> is the primary key of \<open>portfolio_state\<close>, so
  inserting a second row with the same timestamp raises \<open>IntegrityError\<close>.
\<close>

definition state_row_of :: "PortfolioState \<Rightarrow> state_row" where
  "state_row_of s =
     \<lparr>st_timestamp = timestamp s, st_total_value = total_value s,
      st_peak_value = peak_value s, st_drawdown_pct = drawdown_pct s,
      st_risk_zone = zone_value (risk_zone s),
      st_equity_allocation = equity_allocation s,
      st_liquid_allocation = liquid_allocation s,
      st_action_taken = recommended_action s\<rparr>"

definition save_portfolio_state ::
  "env \<Rightarrow> CPPIEngine \<Rightarrow> PortfolioState \<Rightarrow> (py_error + py_value) \<times> CPPIEngine" where
  "save_portfolio_state w e s =
     (case sqlite_raises w SaveState of
        Some err \<Rightarrow> (Inl err, e)
      | None \<Rightarrow>
          if timestamp s \<in> set (map st_timestamp (portfolio_state (db e)))
          then (Inl IntegrityError, e)
          else (Inr PyNone,
                e\<lparr>db := (db e)\<lparr>portfolio_state :=
                     portfolio_state (db e) @ [state_row_of s]\<rparr>\<rparr>))"

text \<open>\<open>_log_risk_event\<close>: \<open>timestamp\<close> is the primary key of \<open>risk_events\<close> too.\<close>

definition log_risk_event ::
  "env \<Rightarrow> CPPIEngine \<Rightarrow> string \<Rightarrow> real \<Rightarrow> real \<Rightarrow> string \<Rightarrow> string
     \<Rightarrow> (py_error + py_value) \<times> CPPIEngine" where
  "log_risk_event w e event_type portfolio_value drawdown action_taken details =
     (case sqlite_raises w LogEvent of
        Some err \<Rightarrow> (Inl err, e)
      | None \<Rightarrow>
          if now w EventTime \<in> set (map ev_timestamp (risk_events (db e)))
          then (Inl IntegrityError, e)
          else (Inr PyNone,
                e\<lparr>db := (db e)\<lparr>risk_events := risk_events (db e) @
                     [\<lparr>ev_timestamp = now w EventTime, ev_event_type = event_type,
                       ev_portfolio_value = portfolio_value, ev_drawdown_pct = drawdown,
                       ev_action_taken = action_taken, ev_details = details\<rparr>]\<rparr>\<rparr>))"

subsection \<open>Governor\<close>

record Governor =
  kite :: "kite_session option"
  cppi :: CPPIEngine
  last_audit_time :: "datetime option"
  api_key :: "string option"
  api_secret :: "string option"

text \<open>Python's truth value of an optional string: \<open>None\<close> and \<open>""\<close> are false.\<close>

definition truthy :: "string option \<Rightarrow> bool" where
  "truthy x = (case x of None \<Rightarrow> False | Some s \<Rightarrow> s \<noteq> [])"

text \<open>Sequencing of steps that may raise.\<close>

definition bind_exc :: "py_error + 'a \<Rightarrow> ('a \<Rightarrow> py_error + 'b) \<Rightarrow> py_error + 'b" where
  "bind_exc m f = (case m of Inl err \<Rightarrow> Inl err | Inr x \<Rightarrow> f x)"

text \<open>\<open>_get_mock_holdings\<close>\<close>

definition get_mock_holdings :: "Holding list" where
  "get_mock_holdings =
     [\<lparr>symbol = ''RELIANCE'', quantity = 10, avg_price = 2500.0, current_price = 2480.0,
       holding_value = 24800.0, day_change = -20.0, day_change_pct = -0.8,
       unrealized_pnl = -200.0, unrealized_pnl_pct = -0.8\<rparr>,
      \<lparr>symbol = ''TCS'', quantity = 5, avg_price = 3200.0, current_price = 3180.0,
       holding_value = 15900.0, day_change = -20.0, day_change_pct = -0.6,
       unrealized_pnl = -100.0, unrealized_pnl_pct = -0.6\<rparr>,
      \<lparr>symbol = ''INFY'', quantity = 15, avg_price = 1400.0, current_price = 1420.0,
       holding_value = 21300.0, day_change = 20.0, day_change_pct = 1.4,
       unrealized_pnl = 300.0, unrealized_pnl_pct = 2.1\<rparr>]"

text \<open>\<open>_get_current_price\<close>: 0.0 when yfinance has no data or raises.\<close>

definition yahoo_symbol :: "string \<Rightarrow> string" where
  "yahoo_symbol s = (if suffix ''.NS'' s then s else s @ ''.NS'')"

definition get_current_price :: "env \<Rightarrow> string \<Rightarrow> real" where
  "get_current_price w s = (case yf_price w (yahoo_symbol s) of None \<Rightarrow> 0.0 | Some p \<Rightarrow> p)"

text \<open>
  The body of the first loop of \<open>fetch_live_holdings\<close>, for one holding: the holding to
  append, \<open>None\<close> when the holding is skipped, or the exception raised.
\<close>

definition process_holding :: "env \<Rightarrow> raw_holding \<Rightarrow> py_error + Holding option" where
  "process_holding w h =
     bind_exc (rh_tradingsymbol h) (\<lambda>sym.
     bind_exc (rh_quantity h) (\<lambda>qty.
       if qty \<le> 0 then Inr None
       else
     bind_exc (rh_average_price h) (\<lambda>avg.
     bind_exc (rh_last_price h) (\<lambda>last_price.
       let cur = (if last_price \<le> 0 then get_current_price w sym else last_price) in
       if cur > 0 then
         bind_exc (case rh_close_price h of None \<Rightarrow> Inr cur | Some c \<Rightarrow> c) (\<lambda>prev_close.
           let change = cur - prev_close in
           Inr (Some
             \<lparr>symbol = sym, quantity = qty, avg_price = avg, current_price = cur,
              holding_value = of_int qty * cur,
              day_change = change,
              day_change_pct = (if prev_close > 0 then (change / prev_close) * 100 else 0),
              unrealized_pnl = (cur - avg) * of_int qty,
              unrealized_pnl_pct = (if avg > 0 then ((cur - avg) / avg) * 100 else 0)\<rparr>))
       else Inr None))))"

text \<open>The exceptions the two inner handlers catch.\<close>

definition caught_inside :: "py_error \<Rightarrow> bool" where
  "caught_inside err = (err = KeyError \<or> err = ValueError \<or> err = TypeError)"

fun process_holdings :: "env \<Rightarrow> raw_holding list \<Rightarrow> Holding list \<Rightarrow> py_error + Holding list" where
  "process_holdings w [] holdings = Inr holdings"
| "process_holdings w (h # rest) holdings =
     (case process_holding w h of
        Inr (Some x) \<Rightarrow> process_holdings w rest (holdings @ [x])
      | Inr None \<Rightarrow> process_holdings w rest holdings
      | Inl err \<Rightarrow> if caught_inside err then process_holdings w rest holdings else Inl err)"

text \<open>The body of the second loop, for one net position.\<close>

definition process_position ::
  "env \<Rightarrow> Holding list \<Rightarrow> raw_position \<Rightarrow> py_error + Holding option" where
  "process_position w holdings p =
     bind_exc (rp_tradingsymbol p) (\<lambda>sym.
     bind_exc (rp_quantity p) (\<lambda>qty.
       if qty = 0 \<or> (\<exists>h \<in> set holdings. symbol h = sym) then Inr None
       else
     bind_exc (rp_average_price p) (\<lambda>avg.
     bind_exc (rp_last_price p) (\<lambda>last_price.
       let cur = (if last_price \<le> 0 then get_current_price w sym else last_price) in
       if cur > 0 \<and> \<bar>of_int qty * cur\<bar> > 1000 then
         bind_exc (rp_day_change p) (\<lambda>change.
         bind_exc (rp_day_change_percentage p) (\<lambda>change_pct.
         bind_exc (rp_pnl p) (\<lambda>pnl.
           Inr (Some
             \<lparr>symbol = sym @ ''*'', quantity = qty, avg_price = avg, current_price = cur,
              holding_value = of_int qty * cur,
              day_change = change,
              day_change_pct = change_pct,
              unrealized_pnl = pnl,
              unrealized_pnl_pct =
                (if avg > 0 then (pnl / \<bar>avg * of_int qty\<bar>) * 100 else 0)\<rparr>))))
       else Inr None))))"

fun process_positions :: "env \<Rightarrow> raw_position list \<Rightarrow> Holding list \<Rightarrow> py_error + Holding list" where
  "process_positions w [] holdings = Inr holdings"
| "process_positions w (p # rest) holdings =
     (case process_position w holdings p of
        Inr (Some x) \<Rightarrow> process_positions w rest (holdings @ [x])
      | Inr None \<Rightarrow> process_positions w rest holdings
      | Inl err \<Rightarrow> if caught_inside err then process_positions w rest holdings else Inl err)"

text \<open>The outer \<open>try\<close> block of \<open>fetch_live_holdings\<close>, on a session.\<close>

definition fetch_from_kite :: "env \<Rightarrow> kite_session \<Rightarrow> py_error + Holding list" where
  "fetch_from_kite w s =
     bind_exc (holdings_call s) (\<lambda>holdings_data.
     bind_exc (positions_call s) (\<lambda>net_positions.
     bind_exc (process_holdings w holdings_data []) (\<lambda>holdings.
       process_positions w net_positions holdings)))"

text \<open>
  The session \<open>fetch_live_holdings\<close> uses (its local variable \<open>kite_session\<close>): a
  temporary one when an access token and an API key are there and it can be created, the
  governor's own otherwise.
\<close>

definition select_session :: "env \<Rightarrow> Governor \<Rightarrow> string option \<Rightarrow> kite_session option" where
  "select_session w g access_token =
     (if truthy access_token \<and> truthy (api_key g) then
        (case (api_key g, access_token) of
           (Some k, Some t) \<Rightarrow>
             (case connect w k t of Inl err \<Rightarrow> kite g | Inr s \<Rightarrow> Some s)
         | _ \<Rightarrow> kite g)
      else kite g)"

text \<open>
  \<open>fetch_live_holdings\<close>: with no session, and when the block above raises, the mock
  holdings are returned.
\<close>

definition fetch_live_holdings :: "env \<Rightarrow> Governor \<Rightarrow> string option \<Rightarrow> Holding list" where
  "fetch_live_holdings w g access_token =
     (case select_session w g access_token of
        None \<Rightarrow> get_mock_holdings
      | Some s \<Rightarrow>
          (case fetch_from_kite w s of
             Inl err \<Rightarrow> get_mock_holdings
           | Inr holdings \<Rightarrow> holdings))"

text \<open>
  The query of \<open>_check_zone_changes\<close>:
  \<open>SELECT risk_zone FROM portfolio_state ORDER BY timestamp DESC LIMIT 1 OFFSET 1\<close>.
\<close>

definition previous_zone_query :: "state_row list \<Rightarrow> string option" where
  "previous_zone_query rows =
     (case rev (sort_key st_timestamp rows) of
        _ # r # _ \<Rightarrow> Some (st_risk_zone r)
      | _ \<Rightarrow> None)"

text \<open>\<open>_check_zone_changes\<close>, run after the state has been saved.\<close>

definition check_zone_changes ::
  "env \<Rightarrow> CPPIEngine \<Rightarrow> PortfolioState \<Rightarrow> (py_error + py_value) \<times> CPPIEngine" where
  "check_zone_changes w e s =
     (case sqlite_raises w PrevZone of
        Some err \<Rightarrow> (Inl err, e)
      | None \<Rightarrow>
          (case previous_zone_query (portfolio_state (db e)) of
             None \<Rightarrow> (Inr PyNone, e)
           | Some prev_zone \<Rightarrow>
               if prev_zone \<noteq> zone_value (risk_zone s)
               then log_risk_event w e ''ZONE_CHANGE'' (total_value s) (drawdown_pct s)
                      (recommended_action s)
                      (''Zone changed from '' @ prev_zone @ '' to '' @ zone_value (risk_zone s))
               else (Inr PyNone, e)))"

text \<open>The dictionaries \<open>audit_risk\<close> returns.\<close>

record holding_entry =
  he_symbol :: string
  he_quantity :: int
  he_current_price :: real
  he_value :: real
  he_day_change_pct :: real
  he_unrealized_pnl :: real
  he_unrealized_pnl_pct :: real

definition holding_entry_of :: "Holding \<Rightarrow> holding_entry" where
  "holding_entry_of h =
     \<lparr>he_symbol = symbol h, he_quantity = quantity h, he_current_price = current_price h,
      he_value = holding_value h, he_day_change_pct = day_change_pct h,
      he_unrealized_pnl = unrealized_pnl h, he_unrealized_pnl_pct = unrealized_pnl_pct h\<rparr>"

record assessment =
  r_status :: string
  r_total_value :: real
  r_peak_value :: real
  r_drawdown_pct :: real
  r_floor_value :: real
  r_cushion :: real
  r_equity_allocation_target :: real
  r_liquid_allocation_target :: real
  r_action :: string
  r_holdings :: "holding_entry list"
  r_timestamp :: datetime

datatype response =
  Assessment assessment
| ErrorResponse py_error datetime


text \<open>
  The \<open>try\<close> block of \<open>audit_risk\<close>: the response, or the exception that leaves the
  block, and the governor with what had been written by then.
\<close>

definition audit_risk_try ::
  "env \<Rightarrow> Governor \<Rightarrow> string option \<Rightarrow> (py_error + response) \<times> Governor" where
  "audit_risk_try w g access_token =
     (let holdings = fetch_live_holdings w g access_token;
          total = sum_list (map holding_value holdings)
      in case get_peak_value w GetPeak (cppi g) of
           Inl err \<Rightarrow> (Inl err, g)
         | Inr peak0 \<Rightarrow>
      (case update_peak_value w (cppi g) total of
           (Inl err, e1) \<Rightarrow> (Inl err, g\<lparr>cppi := e1\<rparr>)
         | (Inr _, e1) \<Rightarrow>
      (let peak = max peak0 total;
           drawdown = calculate_drawdown total peak;
           zone = determine_risk_zone drawdown
       in case calculate_cppi_allocation e1 total peak zone of
           Inl err \<Rightarrow> (Inl err, g\<lparr>cppi := e1\<rparr>)
         | Inr (equity, liquid) \<Rightarrow>
      (let action = get_recommended_action zone equity;
           s = \<lparr>total_value = total, peak_value = peak, drawdown_pct = drawdown,
                risk_zone = zone, equity_allocation = equity, liquid_allocation = liquid,
                recommended_action = action, timestamp = now w StateTime\<rparr>
       in case save_portfolio_state w e1 s of
           (Inl err, e2) \<Rightarrow> (Inl err, g\<lparr>cppi := e2\<rparr>)
         | (Inr _, e2) \<Rightarrow>
      (case check_zone_changes w e2 s of
           (Inl err, e3) \<Rightarrow> (Inl err, g\<lparr>cppi := e3\<rparr>)
         | (Inr _, e3) \<Rightarrow>
             (Inr (Assessment
                \<lparr>r_status = zone_value zone,
                 r_total_value = total,
                 r_peak_value = peak,
                 r_drawdown_pct = drawdown * 100,
                 r_floor_value = peak * floor_ratio e3,
                 r_cushion = max 0 (total - (peak * floor_ratio e3)),
                 r_equity_allocation_target = equity * 100,
                 r_liquid_allocation_target = liquid * 100,
                 r_action = action,
                 r_holdings = map holding_entry_of holdings,
                 r_timestamp = timestamp s\<rparr>),
              g\<lparr>cppi := e3, last_audit_time := Some (now w LastAudit)\<rparr>))))))"

text \<open>\<open>Governor.audit_risk\<close>: the \<open>try\<close> block and its \<open>except Exception\<close> handler.\<close>

definition audit_risk :: "env \<Rightarrow> Governor \<Rightarrow> string option \<Rightarrow> response \<times> Governor" where
  "audit_risk w g access_token =
     (case audit_risk_try w g access_token of
        (Inr r, g') \<Rightarrow> (r, g')
      | (Inl err, g') \<Rightarrow> (ErrorResponse err (now w ErrorTime), g'))"

text \<open>\<open>Governor.__init__\<close>, on the file content \<open>d\<close>.\<close>

definition Governor_init :: "env \<Rightarrow> database \<Rightarrow> kite_session option \<Rightarrow> Governor" where
  "Governor_init w d session =
     \<lparr>kite = session, cppi = CPPIEngine_init w d, last_audit_time = None,
      api_key = None, api_secret = None\<rparr>"

text \<open>
  The allocation rule in the words of the specification (section 4.3), for comparison
  with \<open>calculate_cppi_allocation\<close>.
\<close>

definition spec_equity_alloc :: "real \<Rightarrow> real \<Rightarrow> real \<Rightarrow> real \<Rightarrow> real" where
  "spec_equity_alloc ratio multiplier v peak =
     (if v > 0 then min 1 (max 0 (v - ratio * peak) * multiplier / v) else 0)"

subsection \<open>Environments, sessions and runs the properties refer to\<close>

text \<open>
  An environment in which the clock reads \<open>t\<close> throughout a call, no statement raises,
  no temporary session can be created and yfinance has no data.
\<close>

definition calm :: "datetime \<Rightarrow> env" where
  "calm t =
     \<lparr>now = (\<lambda>site. t), sqlite_raises = (\<lambda>site. None),
      connect = (\<lambda>k a. Inl OtherError), yf_price = (\<lambda>s. None)\<rparr>"

text \<open>
  The stored peak after each call of a sequence of calls of \<open>_update_peak_value\<close>,
  each with its own environment and candidate value.
\<close>

fun peak_history :: "CPPIEngine \<Rightarrow> (env \<times> real) list \<Rightarrow> real list" where
  "peak_history e [] = []"
| "peak_history e ((w, v) # calls) =
     (let e' = snd (update_peak_value w e v)
      in stored_peak (db e') # peak_history e' calls)"

text \<open>
  The local variables \<open>total_value\<close>, \<open>peak_value\<close> and \<open>risk_zone\<close> of \<open>audit_risk\<close>,
  as they are when the first read of the peak does not raise.
\<close>

definition audit_total :: "env \<Rightarrow> Governor \<Rightarrow> string option \<Rightarrow> real" where
  "audit_total w g access_token =
     sum_list (map holding_value (fetch_live_holdings w g access_token))"

definition audit_peak :: "env \<Rightarrow> Governor \<Rightarrow> string option \<Rightarrow> real" where
  "audit_peak w g access_token =
     max (stored_peak (db (cppi g))) (audit_total w g access_token)"

definition audit_zone :: "env \<Rightarrow> Governor \<Rightarrow> string option \<Rightarrow> RiskZone" where
  "audit_zone w g access_token =
     determine_risk_zone
       (calculate_drawdown (audit_total w g access_token) (audit_peak w g access_token))"


text \<open>
  A session that reports one holding of 1000 units at the given last price, and no
  position.
\<close>

definition holding_at :: "real \<Rightarrow> raw_holding" where
  "holding_at price =
     \<lparr>rh_tradingsymbol = Inr ''NIFTYBEES'', rh_quantity = Inr 1000,
      rh_average_price = Inr 100, rh_last_price = Inr price, rh_close_price = None\<rparr>"

definition session_at :: "real \<Rightarrow> kite_session" where
  "session_at price = \<lparr>holdings_call = Inr [holding_at price], positions_call = Inr []\<rparr>"


text \<open>A governor without a session, constructed on a file that did not exist.\<close>

definition fresh_governor :: Governor where
  "fresh_governor = Governor_init (calm 0) empty_database None"



text \<open>A session whose \<open>holdings()\<close> raises.\<close>

definition broken_session :: kite_session where
  "broken_session = \<lparr>holdings_call = Inl OtherError, positions_call = Inr []\<rparr>"

text \<open>
  A session whose only holding has last price 0; with no data from yfinance the holding
  has no price.
\<close>

definition unpriced_session :: kite_session where
  "unpriced_session = session_at 0"

section \<open>Properties\<close>

subsection \<open>Allocation, drawdown and zones\<close>

text \<open>The dictionary \<open>__init__\<close> builds has a positive multiplier for every zone.\<close>

lemma default_multipliers_positive: "\<exists>m. default_multipliers zone = Some m \<and> 0 < m"
  by (cases zone) (simp_all add: default_multipliers_def)

text \<open>
  C1. Floor protection: whatever the engine's floor ratio and whatever multiplier it
  holds for the zone, a value at or below the floor \<open>floor_ratio * peak\<close> has cushion 0
  and is allocated 0 to equity and 1 to liquid assets.
\<close>

theorem floor_protection:
  assumes "multipliers e zone = Some m" and "v \<le> floor_ratio e * peak"
  shows "cppi_cushion e v peak = 0 \<and> calculate_cppi_allocation e v peak zone = Inr (0, 1)"
  using assms by (simp add: cppi_cushion_def cppi_floor_def calculate_cppi_allocation_def)

text \<open>Example A of the specification: peak 100000, value 85000, RED.\<close>

theorem floor_protection_witness:
  "multipliers (CPPIEngine_init (calm 0) empty_database) RED = Some 1
   \<and> (85000::real) \<le> floor_ratio (CPPIEngine_init (calm 0) empty_database) * 100000
   \<and> cppi_cushion (CPPIEngine_init (calm 0) empty_database) 85000 100000 = 0
   \<and> calculate_cppi_allocation (CPPIEngine_init (calm 0) empty_database) 85000 100000 RED
       = Inr (0, 1)"
proof -
  have m: "multipliers (CPPIEngine_init (calm 0) empty_database) RED = Some 1"
    by (simp add: CPPIEngine_init_def default_multipliers_def)
  have f: "(85000::real) \<le> floor_ratio (CPPIEngine_init (calm 0) empty_database) * 100000"
    by (simp add: CPPIEngine_init_def)
  from floor_protection [OF m f] m f show ?thesis by simp
qed

text \<open>
  C2. The allocation formula: with multiplier \<open>m\<close> for the zone, the engine returns the
  equity share \<open>min(1, max(0, v - floor_ratio * peak) * m / v)\<close> for \<open>v > 0\<close> and 0
  otherwise, and the liquid share is 1 minus the equity share; for a multiplier that is
  not negative the equity share lies between 0 and 1.
\<close>

theorem cppi_allocation_formula:
  assumes "multipliers e zone = Some m"
  shows "calculate_cppi_allocation e v peak zone =
           Inr (spec_equity_alloc (floor_ratio e) m v peak,
                1 - spec_equity_alloc (floor_ratio e) m v peak)
         \<and> (0 \<le> m \<longrightarrow> 0 \<le> spec_equity_alloc (floor_ratio e) m v peak
                       \<and> spec_equity_alloc (floor_ratio e) m v peak \<le> 1)"
  using assms
  by (auto simp add: cppi_cushion_def cppi_floor_def calculate_cppi_allocation_def
      spec_equity_alloc_def Let_def)

text \<open>Example B of the specification: peak 100000, value 97000, GREEN.\<close>

theorem cppi_allocation_formula_witness:
  "multipliers (CPPIEngine_init (calm 0) empty_database) GREEN = Some 5
   \<and> calculate_cppi_allocation (CPPIEngine_init (calm 0) empty_database) 97000 100000 GREEN
       = Inr (35 / 97, 62 / 97)
   \<and> (0::real) \<le> 5 \<and> (0::real) \<le> 35 / 97 \<and> (35::real) / 97 \<le> 1"
proof -
  have m: "multipliers (CPPIEngine_init (calm 0) empty_database) GREEN = Some 5"
    by (simp add: CPPIEngine_init_def default_multipliers_def)
  have s: "spec_equity_alloc (floor_ratio (CPPIEngine_init (calm 0) empty_database)) 5 97000 100000
             = 35 / 97"
    by (simp add: spec_equity_alloc_def CPPIEngine_init_def)
  from cppi_allocation_formula [OF m, of 97000 100000] m s show ?thesis by simp
qed




text \<open>
  C4. Zone classification: a drawdown of at most 0.05 is GREEN, one above 0.05 and at
  most 0.08 is YELLOW, one above 0.08 is RED; the two thresholds belong to the lower zone.
\<close>

theorem zone_classification:
  "(determine_risk_zone d = GREEN \<longleftrightarrow> d \<le> 0.05)
   \<and> (determine_risk_zone d = YELLOW \<longleftrightarrow> 0.05 < d \<and> d \<le> 0.08)
   \<and> (determine_risk_zone d = RED \<longleftrightarrow> 0.08 < d)
   \<and> determine_risk_zone 0.05 = GREEN
   \<and> determine_risk_zone 0.08 = YELLOW"
  by (auto simp add: determine_risk_zone_def)

subsection \<open>The peak tracker\<close>

lemma max_id_map:
  assumes "\<And>r. pk_id (f r) = pk_id r"
  shows "max_id (map f rows) = max_id rows"
  by (induction rows) (simp_all add: assms split: option.splits)

lemma max_id_update_peak_rows: "max_id (update_peak_rows w v rows) = max_id rows"
  unfolding update_peak_rows_def by (rule max_id_map) simp

lemma max_id_None_iff: "max_id rows = None \<longleftrightarrow> rows = []"
  by (cases rows) (simp_all split: option.splits)

lemma max_id_in: "max_id rows = Some m \<Longrightarrow> \<exists>r \<in> set rows. pk_id r = m"
proof (induction rows arbitrary: m)
  case Nil
  then show ?case by simp
next
  case (Cons r rs)
  then show ?case
    by (cases "max_id rs") (auto simp add: max_def split: if_splits)
qed

lemma find_update_latest:
  "\<exists>r \<in> set rows. pk_id r = m \<Longrightarrow>
   \<exists>r. find (\<lambda>r. pk_id r = m)
          (map (\<lambda>r. if Some (pk_id r) = Some m
                    then r\<lparr>pk_peak_value := v, pk_peak_date := a, pk_updated_at := b\<rparr>
                    else r) rows) = Some r \<and> pk_peak_value r = v"
  by (induction rows) auto

lemma latest_peak_row_update:
  assumes "rows \<noteq> []"
  shows "\<exists>r. latest_peak_row (update_peak_rows w v rows) = Some r \<and> pk_peak_value r = v"
proof -
  from assms obtain m where m: "max_id rows = Some m"
    using max_id_None_iff [of rows] by (cases "max_id rows") auto
  from max_id_in [OF m] have "\<exists>r \<in> set rows. pk_id r = m" .
  from find_update_latest [OF this, where v = v and a = "now w PeakDate" and b = "now w PeakUpdatedAt"]
  show ?thesis
    by (simp add: latest_peak_row_def max_id_update_peak_rows m)
       (simp add: update_peak_rows_def m)
qed

lemma stored_peak_update:
  assumes "peak_tracker d \<noteq> []"
  shows "stored_peak (d\<lparr>peak_tracker := update_peak_rows w v (peak_tracker d)\<rparr>) = v"
  using latest_peak_row_update [OF assms, of w v] by (auto simp add: stored_peak_def)

lemma update_peak_rows_Nil: "update_peak_rows w v [] = []"
  by (simp add: update_peak_rows_def)

lemma update_peak_value_cases:
  "snd (update_peak_value w e v) = e \<or>
   (stored_peak (db e) < v \<and> fst (update_peak_value w e v) = Inr PyNone \<and>
    snd (update_peak_value w e v) =
      e\<lparr>db := (db e)\<lparr>peak_tracker := update_peak_rows w v (peak_tracker (db e))\<rparr>\<rparr>)"
  by (simp add: update_peak_value_def get_peak_value_def split: option.splits)

lemma update_peak_value_monotone:
  "stored_peak (db e) \<le> stored_peak (db (snd (update_peak_value w e v)))"
proof (cases "peak_tracker (db e) = []")
  case True
  then have "(db e)\<lparr>peak_tracker := update_peak_rows w v (peak_tracker (db e))\<rparr> = db e"
    by (simp add: update_peak_rows_Nil)
  then show ?thesis using update_peak_value_cases [of w e v] by auto
next
  case False
  from stored_peak_update [OF False, of w v] update_peak_value_cases [of w e v]
  show ?thesis by auto
qed

lemma peak_history_sorted: "sorted (stored_peak (db e) # peak_history e calls)"
proof (induction calls arbitrary: e)
  case Nil
  then show ?case by simp
next
  case (Cons c calls)
  obtain w v where c: "c = (w, v)" by (cases c)
  let ?e' = "snd (update_peak_value w e v)"
  have "sorted (stored_peak (db ?e') # peak_history ?e' calls)" by (rule Cons.IH)
  moreover have "stored_peak (db e) \<le> stored_peak (db ?e')"
    by (rule update_peak_value_monotone)
  ultimately show ?case by (auto simp add: c Let_def)
qed

lemma update_peak_value_twice:
  assumes "fst (update_peak_value w1 e v) = Inr PyNone"
  shows "snd (update_peak_value w2 (snd (update_peak_value w1 e v)) v)
           = snd (update_peak_value w1 e v)"
proof (cases "peak_tracker (db e) = []")
  case True
  then have same: "(db e)\<lparr>peak_tracker := update_peak_rows w v (peak_tracker (db e))\<rparr> = db e" for w
    by (simp add: update_peak_rows_Nil)
  have "snd (update_peak_value w e v) = e" for w
    using update_peak_value_cases [of w e v] same by auto
  then show ?thesis by simp
next
  case False
  show ?thesis
  proof (cases "stored_peak (db e) < v")
    case True
    with assms have e1: "snd (update_peak_value w1 e v) =
        e\<lparr>db := (db e)\<lparr>peak_tracker := update_peak_rows w1 v (peak_tracker (db e))\<rparr>\<rparr>"
      by (auto simp add: update_peak_value_def get_peak_value_def split: option.splits)
    have "stored_peak (db (snd (update_peak_value w1 e v))) = v"
      using stored_peak_update [OF False, of w1 v] by (simp add: e1)
    then show ?thesis
      by (simp add: update_peak_value_def [of w2] get_peak_value_def split: option.splits)
  next
    case nlt: False
    then have "snd (update_peak_value w e v) = e" for w
      by (simp add: update_peak_value_def get_peak_value_def split: option.splits)
    then show ?thesis by simp
  qed
qed

text \<open>
  C5. Over any sequence of calls of \<open>_update_peak_value\<close>, with any values and whether or
  not a statement raises, the stored peak never decreases. Of two successive calls with
  the same value at most one changes the file, and the second changes nothing when the
  first has returned normally.
\<close>

theorem peak_monotone_idempotent:
  "sorted (stored_peak (db e) # peak_history e calls)
   \<and> (snd (update_peak_value w1 e v) = e
      \<or> snd (update_peak_value w2 (snd (update_peak_value w1 e v)) v)
          = snd (update_peak_value w1 e v))
   \<and> (fst (update_peak_value w1 e v) = Inr PyNone \<longrightarrow>
        snd (update_peak_value w2 (snd (update_peak_value w1 e v)) v)
          = snd (update_peak_value w1 e v))"
proof -
  have "snd (update_peak_value w1 e v) = e \<or> fst (update_peak_value w1 e v) = Inr PyNone"
    using update_peak_value_cases [of w1 e v] by auto
  then show ?thesis
    using peak_history_sorted [of e calls] update_peak_value_twice [of w1 e v w2] by blast
qed

text \<open>Unfolding the definitions on a concrete engine.\<close>

lemmas peak_eval = CPPIEngine_init_def initialize_database_def empty_database_def calm_def
  update_peak_value_def get_peak_value_def stored_peak_def latest_peak_row_def
  update_peak_rows_def Let_def

theorem peak_monotone_idempotent_witness:
  "peak_history (CPPIEngine_init (calm 0) empty_database)
     [(calm 1, 105000), (calm 2, 103000), (calm 3, 110000)] = [105000, 105000, 110000]
   \<and> sorted (stored_peak (db (CPPIEngine_init (calm 0) empty_database))
        # peak_history (CPPIEngine_init (calm 0) empty_database)
            [(calm 1, 105000), (calm 2, 103000), (calm 3, 110000)])
   \<and> fst (update_peak_value (calm 1) (CPPIEngine_init (calm 0) empty_database) 105000)
       = Inr PyNone
   \<and> snd (update_peak_value (calm 2)
          (snd (update_peak_value (calm 1) (CPPIEngine_init (calm 0) empty_database) 105000))
          105000)
       = snd (update_peak_value (calm 1) (CPPIEngine_init (calm 0) empty_database) 105000)"
proof -
  have h: "peak_history (CPPIEngine_init (calm 0) empty_database)
     [(calm 1, 105000), (calm 2, 103000), (calm 3, 110000)] = [105000, 105000, 110000]"
    by (simp add: peak_eval)
  have r: "fst (update_peak_value (calm 1) (CPPIEngine_init (calm 0) empty_database) 105000)
       = Inr PyNone"
    by (simp add: peak_eval)
  from peak_monotone_idempotent
    [of "CPPIEngine_init (calm 0) empty_database"
        "[(calm 1, 105000), (calm 2, 103000), (calm 3, 110000)]" "calm 1" 105000 "calm 2"]
    h r
  show ?thesis by simp
qed

text \<open>
  C6, as stated, fails: \<open>_update_peak_value\<close> returns \<open>None\<close>, not the new peak, and it
  overwrites the latest row of \<open>peak_tracker\<close> rather than adding a record.
\<close>

theorem peak_update_returns_none_counterexample:
  "stored_peak (db (CPPIEngine_init (calm 0) empty_database)) < 110000
   \<and> fst (update_peak_value (calm 1) (CPPIEngine_init (calm 0) empty_database) 110000)
       = Inr PyNone
   \<and> fst (update_peak_value (calm 1) (CPPIEngine_init (calm 0) empty_database) 110000)
       \<noteq> Inr (PyFloat 110000)
   \<and> length (peak_tracker (db (snd (update_peak_value (calm 1)
          (CPPIEngine_init (calm 0) empty_database) 110000))))
       = length (peak_tracker (db (CPPIEngine_init (calm 0) empty_database)))"
  by (simp add: peak_eval)

lemma length_update_peak_rows: "length (update_peak_rows w v rows) = length rows"
  by (simp add: update_peak_rows_def)

text \<open>
  C6, amended. When no statement raises and \<open>peak_tracker\<close> has a row (as it has after
  \<open>__init__\<close>), \<open>_update_peak_value\<close> returns \<open>None\<close>; for a candidate above the stored
  peak it overwrites the latest row, so that the stored peak is the candidate; otherwise
  it leaves the file as it is. In both cases the stored peak afterwards is
  \<open>max(stored peak before, candidate)\<close>, the peak \<open>audit_risk\<close> computes for itself.
\<close>

theorem peak_update_contract:
  assumes "sqlite_raises w UpdateRead = None" and "sqlite_raises w UpdateWrite = None"
    and "peak_tracker (db e) \<noteq> []"
  shows "fst (update_peak_value w e v) = Inr PyNone
   \<and> (v > stored_peak (db e) \<longrightarrow>
        stored_peak (db (snd (update_peak_value w e v))) = v
        \<and> length (peak_tracker (db (snd (update_peak_value w e v))))
            = length (peak_tracker (db e)))
   \<and> (\<not> v > stored_peak (db e) \<longrightarrow> snd (update_peak_value w e v) = e)
   \<and> stored_peak (db (snd (update_peak_value w e v))) = max (stored_peak (db e)) v"
proof (cases "v > stored_peak (db e)")
  case True
  with assms have e1: "update_peak_value w e v =
      (Inr PyNone,
       e\<lparr>db := (db e)\<lparr>peak_tracker := update_peak_rows w v (peak_tracker (db e))\<rparr>\<rparr>)"
    by (simp add: update_peak_value_def get_peak_value_def)
  show ?thesis
    using True stored_peak_update [OF assms(3), of w v]
    by (simp add: e1 length_update_peak_rows)
next
  case False
  with assms have "update_peak_value w e v = (Inr PyNone, e)"
    by (simp add: update_peak_value_def get_peak_value_def)
  with False show ?thesis by simp
qed

theorem peak_update_contract_witness:
  "sqlite_raises (calm 1) UpdateRead = None \<and> sqlite_raises (calm 1) UpdateWrite = None
   \<and> peak_tracker (db (CPPIEngine_init (calm 0) empty_database)) \<noteq> []
   \<and> stored_peak (db (CPPIEngine_init (calm 0) empty_database)) = 100000
   \<and> fst (update_peak_value (calm 1) (CPPIEngine_init (calm 0) empty_database) 110000)
       = Inr PyNone
   \<and> stored_peak (db (snd (update_peak_value (calm 1)
        (CPPIEngine_init (calm 0) empty_database) 110000))) = 110000
   \<and> snd (update_peak_value (calm 1) (CPPIEngine_init (calm 0) empty_database) 90000)
       = CPPIEngine_init (calm 0) empty_database
   \<and> stored_peak (db (snd (update_peak_value (calm 1)
        (CPPIEngine_init (calm 0) empty_database) 90000))) = 100000"
proof -
  have a: "sqlite_raises (calm 1) UpdateRead = None" "sqlite_raises (calm 1) UpdateWrite = None"
    by (simp_all add: calm_def)
  have b: "peak_tracker (db (CPPIEngine_init (calm 0) empty_database)) \<noteq> []"
    by (simp add: peak_eval)
  have c: "stored_peak (db (CPPIEngine_init (calm 0) empty_database)) = 100000"
    by (simp add: peak_eval)
  from peak_update_contract [OF a b, of 110000] peak_update_contract [OF a b, of 90000] a b c
  show ?thesis by simp
qed

subsection \<open>The audit\<close>

lemma update_peak_value_frame:
  "multipliers (snd (update_peak_value w e v)) = multipliers e"
  "floor_ratio (snd (update_peak_value w e v)) = floor_ratio e"
  "portfolio_state (db (snd (update_peak_value w e v))) = portfolio_state (db e)"
  "risk_events (db (snd (update_peak_value w e v))) = risk_events (db e)"
  using update_peak_value_cases [of w e v] by auto

lemma update_peak_value_quiet:
  assumes "sqlite_raises w UpdateRead = None" and "sqlite_raises w UpdateWrite = None"
  shows "fst (update_peak_value w e v) = Inr PyNone"
  using assms by (simp add: update_peak_value_def get_peak_value_def)


text \<open>
  An audit in which no statement raises and both primary keys are new: the response is
  an assessment, one state row is appended, and an event is appended exactly when the
  query finds a row whose zone differs.
\<close>

lemma audit_risk_try_quiet:
  assumes q: "\<And>site. sqlite_raises w site = None"
    and m: "multipliers (cppi g) (audit_zone w g tok) = Some m"
    and fresh: "now w StateTime \<notin> set (map st_timestamp (portfolio_state (db (cppi g))))"
    and evfresh: "now w EventTime \<notin> set (map ev_timestamp (risk_events (db (cppi g))))"
  shows "\<exists>a g' row. audit_risk_try w g tok = (Inr (Assessment a), g')
      \<and> r_status a = zone_value (audit_zone w g tok)
      \<and> r_total_value a = audit_total w g tok
      \<and> r_peak_value a = audit_peak w g tok
      \<and> st_timestamp row = now w StateTime
      \<and> st_risk_zone row = zone_value (audit_zone w g tok)
      \<and> portfolio_state (db (cppi g')) = portfolio_state (db (cppi g)) @ [row]
      \<and> (case previous_zone_query (portfolio_state (db (cppi g)) @ [row]) of
            None \<Rightarrow> risk_events (db (cppi g')) = risk_events (db (cppi g))
          | Some z \<Rightarrow>
              if z \<noteq> zone_value (audit_zone w g tok)
              then \<exists>ev. risk_events (db (cppi g')) = risk_events (db (cppi g)) @ [ev]
                     \<and> ev_event_type ev = ''ZONE_CHANGE'' \<and> ev_timestamp ev = now w EventTime
              else risk_events (db (cppi g')) = risk_events (db (cppi g)))"
proof -
  define total where "total = sum_list (map holding_value (fetch_live_holdings w g tok))"
  define e1 where "e1 = snd (update_peak_value w (cppi g) total)"
  define peak where "peak = max (stored_peak (db (cppi g))) total"
  define zone where "zone = determine_risk_zone (calculate_drawdown total peak)"
  have zone_eq: "audit_zone w g tok = zone" "audit_total w g tok = total"
    "audit_peak w g tok = peak"
    by (simp_all add: audit_zone_def audit_peak_def audit_total_def zone_def peak_def total_def)
  have u: "update_peak_value w (cppi g) total = (Inr PyNone, e1)"
    using update_peak_value_quiet [of w "cppi g" total] q
    by (simp add: e1_def prod_eq_iff)
  have fr: "multipliers e1 = multipliers (cppi g)" "floor_ratio e1 = floor_ratio (cppi g)"
    "portfolio_state (db e1) = portfolio_state (db (cppi g))"
    "risk_events (db e1) = risk_events (db (cppi g))"
    by (simp_all add: e1_def update_peak_value_frame)
  obtain equity liquid where
    alloc: "calculate_cppi_allocation e1 total peak zone = Inr (equity, liquid)"
    using m by (simp add: calculate_cppi_allocation_def fr zone_eq Let_def)
  define s where "s =
    \<lparr>total_value = total, peak_value = peak, drawdown_pct = calculate_drawdown total peak,
     risk_zone = zone, equity_allocation = equity, liquid_allocation = liquid,
     recommended_action = get_recommended_action zone equity, timestamp = now w StateTime\<rparr>"
  define e2 where "e2 =
    e1\<lparr>db := (db e1)\<lparr>portfolio_state := portfolio_state (db e1) @ [state_row_of s]\<rparr>\<rparr>"
  have sv: "save_portfolio_state w e1 s = (Inr PyNone, e2)"
    using fresh by (simp add: save_portfolio_state_def q fr e2_def s_def)
  have row: "st_timestamp (state_row_of s) = now w StateTime"
    "st_risk_zone (state_row_of s) = zone_value zone"
    by (simp_all add: state_row_of_def s_def)
  have ts: "timestamp s = now w StateTime" by (simp add: s_def)
  have e2f: "portfolio_state (db e2) = portfolio_state (db (cppi g)) @ [state_row_of s]"
    "risk_events (db e2) = risk_events (db (cppi g))" "floor_ratio e2 = floor_ratio (cppi g)"
    by (simp_all add: e2_def fr)
  define e3 where "e3 = snd (check_zone_changes w e2 s)"
  have cz: "check_zone_changes w e2 s = (Inr PyNone, e3)"
    using evfresh
    by (simp add: e3_def check_zone_changes_def log_risk_event_def q e2f split: option.splits)
  have e3f: "portfolio_state (db e3) = portfolio_state (db (cppi g)) @ [state_row_of s]"
    "floor_ratio e3 = floor_ratio (cppi g)"
    by (simp_all add: e3_def check_zone_changes_def log_risk_event_def q e2f split: option.splits)
  have ev: "(case previous_zone_query (portfolio_state (db (cppi g)) @ [state_row_of s]) of
            None \<Rightarrow> risk_events (db e3) = risk_events (db (cppi g))
          | Some z \<Rightarrow>
              if z \<noteq> zone_value zone
              then \<exists>ev. risk_events (db e3) = risk_events (db (cppi g)) @ [ev]
                     \<and> ev_event_type ev = ''ZONE_CHANGE'' \<and> ev_timestamp ev = now w EventTime
              else risk_events (db e3) = risk_events (db (cppi g)))"
    using evfresh
    by (simp add: e3_def check_zone_changes_def log_risk_event_def q e2f s_def
        split: option.splits)
  have "audit_risk_try w g tok =
      (Inr (Assessment
          \<lparr>r_status = zone_value zone, r_total_value = total, r_peak_value = peak,
           r_drawdown_pct = calculate_drawdown total peak * 100,
           r_floor_value = peak * floor_ratio e3,
           r_cushion = max 0 (total - (peak * floor_ratio e3)),
           r_equity_allocation_target = equity * 100,
           r_liquid_allocation_target = liquid * 100,
           r_action = get_recommended_action zone equity,
           r_holdings = map holding_entry_of (fetch_live_holdings w g tok),
           r_timestamp = now w StateTime\<rparr>),
       g\<lparr>cppi := e3, last_audit_time := Some (now w LastAudit)\<rparr>)"
    unfolding audit_risk_try_def get_peak_value_def
    by (simp add: q Let_def total_def [symmetric] peak_def [symmetric] u
        zone_def [symmetric] alloc s_def [symmetric] sv cz ts)
  then show ?thesis
    using row e3f ev by (simp add: zone_eq split: option.splits)
qed

text \<open>Unfolding the definitions on a concrete governor.\<close>

lemmas audit_eval = audit_risk_def audit_risk_try_def fetch_live_holdings_def
  select_session_def truthy_def
  fetch_from_kite_def bind_exc_def process_holding_def process_position_def caught_inside_def
  get_current_price_def yahoo_symbol_def get_mock_holdings_def
  Governor_init_def CPPIEngine_init_def initialize_database_def empty_database_def calm_def
  update_peak_value_def get_peak_value_def stored_peak_def latest_peak_row_def
  update_peak_rows_def save_portfolio_state_def state_row_of_def log_risk_event_def
  check_zone_changes_def previous_zone_query_def calculate_drawdown_def
  determine_risk_zone_def calculate_cppi_allocation_def cppi_cushion_def cppi_floor_def
  get_recommended_action_def default_multipliers_def holding_entry_of_def
  holding_at_def session_at_def fresh_governor_def Let_def






subsection \<open>Failing writes\<close>









subsection \<open>The interface of the audit\<close>




subsection \<open>Holdings that cannot be fetched\<close>

lemma mock_total: "sum_list (map holding_value get_mock_holdings) = 62000"
  by (simp add: get_mock_holdings_def)

lemma holdings_call_raises:
  "holdings_call s = Inl err \<Longrightarrow> fetch_from_kite w s = Inl err"
  by (simp add: fetch_from_kite_def bind_exc_def)

text \<open>
  C9, as stated, fails. Without a session, and with a session whose \<open>holdings()\<close> raises,
  the audit does not abort: it values the mock holdings (62000) and reports RED against
  the seed peak. With a session whose only holding has no price, the holding is dropped
  and the audit values the portfolio at 0.
\<close>

theorem valuation_failure_counterexample:
  "select_session (calm 1) fresh_governor None = None
   \<and> fst (audit_risk (calm 1) fresh_governor None) =
       Assessment
         \<lparr>r_status = ''RED'', r_total_value = 62000, r_peak_value = 100000,
          r_drawdown_pct = 38, r_floor_value = 90000, r_cushion = 0,
          r_equity_allocation_target = 0, r_liquid_allocation_target = 100,
          r_action = ''EMERGENCY: Liquidate to Liquid BeES immediately'',
          r_holdings = map holding_entry_of get_mock_holdings,
          r_timestamp = 1\<rparr>
   \<and> holdings_call broken_session = Inl OtherError
   \<and> fst (audit_risk (calm 1) (fresh_governor\<lparr>kite := Some broken_session\<rparr>) None) =
       fst (audit_risk (calm 1) fresh_governor None)
   \<and> fst (audit_risk (calm 1) (fresh_governor\<lparr>kite := Some unpriced_session\<rparr>) None) =
       Assessment
         \<lparr>r_status = ''RED'', r_total_value = 0, r_peak_value = 100000,
          r_drawdown_pct = 100, r_floor_value = 90000, r_cushion = 0,
          r_equity_allocation_target = 0, r_liquid_allocation_target = 100,
          r_action = ''EMERGENCY: Liquidate to Liquid BeES immediately'',
          r_holdings = [],
          r_timestamp = 1\<rparr>"
  by (simp add: audit_eval broken_session_def unpriced_session_def)

text \<open>
  C9, amended. When there is no session, or the block that fetches the holdings raises,
  \<open>fetch_live_holdings\<close> returns the mock holdings and the audit goes on with their total,
  62000: against the seed peak 100000 the zone is RED, and when nothing else raises the
  caller gets an ordinary assessment with that total.
\<close>

theorem valuation_failure_uses_mock:
  assumes "select_session w g tok = None
      \<or> (\<exists>s err. select_session w g tok = Some s \<and> fetch_from_kite w s = Inl err)"
  shows "fetch_live_holdings w g tok = get_mock_holdings
    \<and> audit_total w g tok = 62000
    \<and> (stored_peak (db (cppi g)) = 100000 \<longrightarrow> audit_zone w g tok = RED)
    \<and> ((\<forall>site. sqlite_raises w site = None)
        \<and> multipliers (cppi g) (audit_zone w g tok) \<noteq> None
        \<and> now w StateTime \<notin> set (map st_timestamp (portfolio_state (db (cppi g))))
        \<and> now w EventTime \<notin> set (map ev_timestamp (risk_events (db (cppi g))))
       \<longrightarrow> (\<exists>a. fst (audit_risk w g tok) = Assessment a
              \<and> r_total_value a = 62000
              \<and> r_status a = zone_value (audit_zone w g tok)))"
proof -
  from assms have f: "fetch_live_holdings w g tok = get_mock_holdings"
    by (auto simp add: fetch_live_holdings_def)
  then have t: "audit_total w g tok = 62000"
    by (simp add: audit_total_def mock_total)
  have z: "stored_peak (db (cppi g)) = 100000 \<longrightarrow> audit_zone w g tok = RED"
    by (simp add: audit_zone_def audit_peak_def t calculate_drawdown_def
        determine_risk_zone_def)
  have a: "(\<forall>site. sqlite_raises w site = None)
        \<and> multipliers (cppi g) (audit_zone w g tok) \<noteq> None
        \<and> now w StateTime \<notin> set (map st_timestamp (portfolio_state (db (cppi g))))
        \<and> now w EventTime \<notin> set (map ev_timestamp (risk_events (db (cppi g))))
       \<longrightarrow> (\<exists>a. fst (audit_risk w g tok) = Assessment a
              \<and> r_total_value a = 62000
              \<and> r_status a = zone_value (audit_zone w g tok))"
  proof (intro impI, elim conjE)
    assume q: "\<forall>site. sqlite_raises w site = None"
      and m: "multipliers (cppi g) (audit_zone w g tok) \<noteq> None"
      and fresh: "now w StateTime \<notin> set (map st_timestamp (portfolio_state (db (cppi g))))"
      and evfresh: "now w EventTime \<notin> set (map ev_timestamp (risk_events (db (cppi g))))"
    from m obtain k where k: "multipliers (cppi g) (audit_zone w g tok) = Some k" by auto
    from audit_risk_try_quiet [OF _ k fresh evfresh] q
    obtain a g' where "audit_risk_try w g tok = (Inr (Assessment a), g')"
      "r_status a = zone_value (audit_zone w g tok)" "r_total_value a = audit_total w g tok"
      by blast
    then show "\<exists>a. fst (audit_risk w g tok) = Assessment a
              \<and> r_total_value a = 62000
              \<and> r_status a = zone_value (audit_zone w g tok)"
      by (simp add: audit_risk_def t)
  qed
  from f t z a show ?thesis by blast
qed

text \<open>No session, and a session whose \<open>holdings()\<close> raises.\<close>

theorem valuation_failure_uses_mock_witness:
  "select_session (calm 1) fresh_governor None = None
   \<and> fetch_live_holdings (calm 1) fresh_governor None = get_mock_holdings
   \<and> audit_total (calm 1) fresh_governor None = 62000
   \<and> stored_peak (db (cppi fresh_governor)) = 100000
   \<and> audit_zone (calm 1) fresh_governor None = RED
   \<and> (\<forall>site. sqlite_raises (calm 1) site = None)
   \<and> portfolio_state (db (cppi fresh_governor)) = []
   \<and> risk_events (db (cppi fresh_governor)) = []
   \<and> (\<exists>a. fst (audit_risk (calm 1) fresh_governor None) = Assessment a
         \<and> r_total_value a = 62000 \<and> r_status a = ''RED'')
   \<and> select_session (calm 1) (fresh_governor\<lparr>kite := Some broken_session\<rparr>) None
       = Some broken_session
   \<and> fetch_from_kite (calm 1) broken_session = Inl OtherError
   \<and> fetch_live_holdings (calm 1) (fresh_governor\<lparr>kite := Some broken_session\<rparr>) None
       = get_mock_holdings"
proof -
  have s1: "select_session (calm 1) fresh_governor None = None"
    by (simp add: audit_eval)
  have s2: "select_session (calm 1) (fresh_governor\<lparr>kite := Some broken_session\<rparr>) None
       = Some broken_session"
    by (simp add: audit_eval)
  have b: "fetch_from_kite (calm 1) broken_session = Inl OtherError"
    by (rule holdings_call_raises) (simp add: broken_session_def)
  have p: "stored_peak (db (cppi fresh_governor)) = 100000"
    "portfolio_state (db (cppi fresh_governor)) = []"
    "risk_events (db (cppi fresh_governor)) = []"
    "multipliers (cppi fresh_governor) RED \<noteq> None"
    by (simp_all add: audit_eval)
  have q: "\<forall>site. sqlite_raises (calm 1) site = None"
    by (simp add: calm_def)
  have h1: "select_session (calm 1) fresh_governor None = None
      \<or> (\<exists>s err. select_session (calm 1) fresh_governor None = Some s
           \<and> fetch_from_kite (calm 1) s = Inl err)"
    using s1 by simp
  have h2: "select_session (calm 1) (fresh_governor\<lparr>kite := Some broken_session\<rparr>) None = None
      \<or> (\<exists>s err. select_session (calm 1) (fresh_governor\<lparr>kite := Some broken_session\<rparr>) None
             = Some s
           \<and> fetch_from_kite (calm 1) s = Inl err)"
    using s2 b by simp
  note w1 = valuation_failure_uses_mock [OF h1]
  from w1 p(1) have z: "audit_zone (calm 1) fresh_governor None = RED"
    by blast
  from z p q w1 have a: "\<exists>a. fst (audit_risk (calm 1) fresh_governor None) = Assessment a
         \<and> r_total_value a = 62000 \<and> r_status a = ''RED''"
    by auto
  from z a s1 s2 b p q w1 valuation_failure_uses_mock [OF h2]
  show ?thesis by simp
qed

end
